theory Spec2Isabelle
  imports Complex_Main
begin

section \<open>Accounting CRM API: the entry lifecycle of \<open>main.py\<close>\<close>

text \<open>
  The endpoints of \<open>main.py\<close> are embedded as functions on an explicit document store.
  Every \<open>raise\<close> of the source is a branch returning \<open>Inl\<close>; every endpoint returns the
  store it leaves behind next to its result, so that "the entry is unchanged" is a
  statement about that store and not a convention of the model.
  Each call of \<open>datetime.now\<close> is a parameter of the endpoint that makes it, in the order
  of the calls; the identifier drawn by the driver on insertion is a parameter as well.
\<close>

subsection \<open>Models\<close>

type_synonym datetime = nat

datatype Status =
    draft
  | submitted_for_review
  | reentry_requested
  | recheck_requested
  | reviewed
  | approved

text \<open>\<open>Comment.role\<close> is \<open>Literal["creator", "reviewer", "approver"]\<close>.\<close>

datatype CommentRole = c_creator | c_reviewer | c_approver

text \<open>The field \<open>at\<close> of a comment is \<open>at_time\<close> here.\<close>

record Comment =
  role :: CommentRole
  message :: string
  at_time :: datetime

text \<open>
  \<open>amount\<close> is a Python float that the endpoints only store and copy; no arithmetic and
  no comparison is ever made on it, so it is carried as a real number.
\<close>

record AccountingEntry =
  title :: string
  amount :: real
  description :: "string option"
  status :: Status
  comments :: "Comment list"
  frozen :: bool

text \<open>
  The constructor of the pydantic model: a field the request leaves out takes the default
  of the class (\<open>description = None\<close>, \<open>status = "draft"\<close>, \<open>comments = []\<close>,
  \<open>frozen = False\<close>); a field the request supplies is taken as supplied.
\<close>

definition AccountingEntry_init ::
  "string \<Rightarrow> real \<Rightarrow> string option \<Rightarrow> Status option \<Rightarrow> Comment list option \<Rightarrow> bool option
     \<Rightarrow> AccountingEntry" where
  "AccountingEntry_init t a d s cs f =
     \<lparr>title = t, amount = a, description = d,
      status = (case s of None \<Rightarrow> draft | Some s' \<Rightarrow> s'),
      comments = (case cs of None \<Rightarrow> [] | Some cs' \<Rightarrow> cs'),
      frozen = (case f of None \<Rightarrow> False | Some f' \<Rightarrow> f')\<rparr>"

text \<open>A stored document: the fields of the model and the two timestamps of the store.\<close>

record document = AccountingEntry +
  created_at :: datetime
  updated_at :: datetime

text \<open>The role of \<open>UpdateEntryPayload\<close> and \<open>RolePayload\<close>: four literals.\<close>

datatype Role = creator | reviewer | approver | blackadam

record UpdateEntryPayload =
  up_title :: "string option"
  up_amount :: "real option"
  up_description :: "string option"
  up_role :: Role

record RolePayload =
  rp_role :: Role
  rp_comment :: "string option"

text \<open>\<open>ReviewerActionPayload.role\<close> is \<open>Literal["reviewer", "blackadam"]\<close>.\<close>

datatype ReviewerRole = r_reviewer | r_blackadam

datatype ReviewerAction = mark_reviewed | request_reentry

record ReviewerActionPayload =
  rv_role :: ReviewerRole
  rv_action :: ReviewerAction
  rv_comment :: "string option"

text \<open>\<open>ApproverActionPayload.role\<close> is \<open>Literal["approver", "blackadam"]\<close>.\<close>

datatype ApproverRole = a_approver | a_blackadam

datatype ApproverAction = approve | request_rereview

record ApproverActionPayload =
  ap_role :: ApproverRole
  ap_action :: ApproverAction
  ap_comment :: "string option"

subsection \<open>Errors\<close>

text \<open>
  \<open>HTTPException status_code detail\<close> is what the endpoints raise. The other three are
  exceptions no endpoint catches: subscripting the store handle when it is \<open>None\<close>,
  inserting under an identifier that is taken, and \<open>ObjectId\<close> on a malformed string.
\<close>

datatype error =
    HTTPException nat string
  | TypeError
  | DuplicateKeyError
  | InvalidId

subsection \<open>Identifiers\<close>

text \<open>
  A \<open>bson.ObjectId\<close> is twelve bytes; it is represented by its canonical text, 24
  lower-case hexadecimal digits, which is what \<open>str\<close> returns. The constructor accepts
  24 hexadecimal digits of either case.
\<close>

type_synonym ObjectId = string

definition hexdigits :: "char list" where
  "hexdigits = ''0123456789abcdefABCDEF''"

definition lower_hexdigits :: "char list" where
  "lower_hexdigits = ''0123456789abcdef''"

definition lower_hex :: "char \<Rightarrow> char" where
  "lower_hex c =
     (if c = CHR ''A'' then CHR ''a''
      else if c = CHR ''B'' then CHR ''b''
      else if c = CHR ''C'' then CHR ''c''
      else if c = CHR ''D'' then CHR ''d''
      else if c = CHR ''E'' then CHR ''e''
      else if c = CHR ''F'' then CHR ''f''
      else c)"

definition ObjectId_is_valid :: "string \<Rightarrow> bool" where
  "ObjectId_is_valid s \<longleftrightarrow> length s = 24 \<and> list_all (\<lambda>c. c \<in> set hexdigits) s"

definition ObjectId_new :: "string \<Rightarrow> error + ObjectId" where
  "ObjectId_new s = (if ObjectId_is_valid s then Inr (map lower_hex s) else Inl InvalidId)"

definition str_ObjectId :: "ObjectId \<Rightarrow> string" where
  "str_ObjectId k = k"

text \<open>The identifiers the driver can draw: those in canonical form.\<close>

definition canonical :: "ObjectId \<Rightarrow> bool" where
  "canonical k \<longleftrightarrow> length k = 24 \<and> list_all (\<lambda>c. c \<in> set lower_hexdigits) k"

definition obj_id :: "string \<Rightarrow> error + ObjectId" where
  "obj_id id_str =
     (case ObjectId_new id_str of
        Inr k \<Rightarrow> Inr k
      | Inl _ \<Rightarrow> Inl (HTTPException 400 ''Invalid entry id''))"

subsection \<open>The document store\<close>

text \<open>
  The collection \<open>accountingentry\<close>: one document per \<open>_id\<close>. \<open>find_one\<close>,
  \<open>update_one\<close> with \<open>$set\<close> or \<open>$push\<close>, and \<open>insert_one\<close> are the driver's
  operations the endpoints call; an update whose filter matches nothing changes nothing.
\<close>

type_synonym Store = "ObjectId \<rightharpoonup> document"

definition find_one :: "Store \<Rightarrow> ObjectId \<Rightarrow> (ObjectId \<times> document) option" where
  "find_one db k = (case db k of None \<Rightarrow> None | Some d \<Rightarrow> Some (k, d))"

text \<open>The \<open>updates\<close> dictionary of an endpoint: each key is present or absent.\<close>

record updates =
  set_title :: "string option"
  set_amount :: "real option"
  set_description :: "string option"
  set_status :: "Status option"
  set_frozen :: "bool option"
  set_updated_at :: "datetime option"

definition no_updates :: updates where
  "no_updates =
     \<lparr>set_title = None, set_amount = None, set_description = None,
      set_status = None, set_frozen = None, set_updated_at = None\<rparr>"

definition apply_set :: "updates \<Rightarrow> document \<Rightarrow> document" where
  "apply_set u d =
     (let d1 = (case set_title u of None \<Rightarrow> d | Some v \<Rightarrow> d\<lparr>title := v\<rparr>);
          d2 = (case set_amount u of None \<Rightarrow> d1 | Some v \<Rightarrow> d1\<lparr>amount := v\<rparr>);
          d3 = (case set_description u of None \<Rightarrow> d2 | Some v \<Rightarrow> d2\<lparr>description := Some v\<rparr>);
          d4 = (case set_status u of None \<Rightarrow> d3 | Some v \<Rightarrow> d3\<lparr>status := v\<rparr>);
          d5 = (case set_frozen u of None \<Rightarrow> d4 | Some v \<Rightarrow> d4\<lparr>frozen := v\<rparr>)
      in (case set_updated_at u of None \<Rightarrow> d5 | Some v \<Rightarrow> d5\<lparr>updated_at := v\<rparr>))"

definition update_one_set :: "Store \<Rightarrow> ObjectId \<Rightarrow> updates \<Rightarrow> Store" where
  "update_one_set db k u =
     (case db k of None \<Rightarrow> db | Some d \<Rightarrow> db(k \<mapsto> apply_set u d))"

definition update_one_push :: "Store \<Rightarrow> ObjectId \<Rightarrow> Comment \<Rightarrow> Store" where
  "update_one_push db k c =
     (case db k of None \<Rightarrow> db | Some d \<Rightarrow> db(k \<mapsto> d\<lparr>comments := comments d @ [c]\<rparr>))"

definition insert_one :: "Store \<Rightarrow> ObjectId \<Rightarrow> document \<Rightarrow> error + Store" where
  "insert_one db k d =
     (case db k of None \<Rightarrow> Inr (db(k \<mapsto> d)) | Some _ \<Rightarrow> Inl DuplicateKeyError)"

text \<open>
  Modelled from the spec: \<open>create_document\<close> of the module \<open>database\<close>, which
  \<open>main.py\<close> imports and which is not among the sources. \<open>create_entry\<close> hands it the
  validated request and does nothing else with the request, so what the spec says of
  Create is what this function does: it keeps the title, the amount and the optional
  description of the request; it forces \<open>status = draft\<close>, \<open>comments = []\<close> and
  \<open>frozen = False\<close> whatever the request carries for them; it sets \<open>created_at\<close> and
  \<open>updated_at\<close>; it inserts the record and returns the text of the new identifier.
\<close>

definition create_document ::
  "Store \<Rightarrow> AccountingEntry \<Rightarrow> ObjectId \<Rightarrow> datetime \<Rightarrow> datetime \<Rightarrow> (error + string) \<times> Store" where
  "create_document db entry new_id now1 now2 =
     (case insert_one db new_id
             \<lparr>title = title entry, amount = amount entry, description = description entry,
              status = draft, comments = [], frozen = False,
              created_at = now1, updated_at = now2\<rparr> of
        Inl e \<Rightarrow> (Inl e, db)
      | Inr db' \<Rightarrow> (Inr (str_ObjectId new_id), db'))"

subsection \<open>Helpers\<close>

text \<open>
  \<open>serialize\<close>: \<open>None\<close> for no document, else the document with \<open>_id\<close> replaced by its
  text under \<open>id\<close>. The timestamps are rendered by \<open>isoformat\<close>, which loses nothing;
  they are kept as they are.
\<close>

type_synonym serialized = "string \<times> document"

definition serialize :: "(ObjectId \<times> document) option \<Rightarrow> serialized option" where
  "serialize doc = (case doc of None \<Rightarrow> None | Some (k, d) \<Rightarrow> Some (str_ObjectId k, d))"

text \<open>Truth value of an \<open>Optional[str]\<close>: \<open>None\<close> and the empty string are false.\<close>

definition truthy :: "string option \<Rightarrow> bool" where
  "truthy c = (case c of None \<Rightarrow> False | Some s \<Rightarrow> s \<noteq> [])"

text \<open>\<open>payload.comment or default_msg\<close>.\<close>

definition or_default :: "string option \<Rightarrow> string \<Rightarrow> string" where
  "or_default c default_msg =
     (case c of None \<Rightarrow> default_msg | Some s \<Rightarrow> if s \<noteq> [] then s else default_msg)"

type_synonym result = "error + serialized option"

subsection \<open>Endpoints\<close>

text \<open>
  Every endpoint takes the store handle \<open>db\<close> of the module, which is \<open>None\<close> when no
  database is configured, and returns its result with the handle afterwards.
\<close>

definition create_entry ::
  "Store option \<Rightarrow> AccountingEntry \<Rightarrow> ObjectId \<Rightarrow> datetime \<Rightarrow> datetime \<Rightarrow> result \<times> Store option" where
  "create_entry dbo entry new_id now1 now2 =
     (case dbo of
        None \<Rightarrow> (Inl (HTTPException 500 ''Database not configured''), dbo)
      | Some db \<Rightarrow>
          (case create_document db entry new_id now1 now2 of
             (Inl e, db') \<Rightarrow> (Inl e, Some db')
           | (Inr inserted_id, db') \<Rightarrow>
               (case ObjectId_new inserted_id of
                  Inl e \<Rightarrow> (Inl e, Some db')
                | Inr k \<Rightarrow> (Inr (serialize (find_one db' k)), Some db'))))"

definition update_entry ::
  "Store option \<Rightarrow> string \<Rightarrow> UpdateEntryPayload \<Rightarrow> datetime \<Rightarrow> result \<times> Store option" where
  "update_entry dbo entry_id payload now =
     (case dbo of
        None \<Rightarrow> (Inl (HTTPException 500 ''Database not configured''), dbo)
      | Some db \<Rightarrow>
          (case obj_id entry_id of
             Inl e \<Rightarrow> (Inl e, dbo)
           | Inr k \<Rightarrow>
               (case find_one db k of
                  None \<Rightarrow> (Inl (HTTPException 404 ''Entry not found''), dbo)
                | Some doc \<Rightarrow>
                    if frozen (snd doc) then
                      (Inl (HTTPException 400 ''Entry is frozen and cannot be updated''), dbo)
                    else if status (snd doc) \<notin> set [draft, reentry_requested] then
                      (Inl (HTTPException 400
                         ''Entry can only be updated in draft or reentry_requested state''), dbo)
                    else
                      let updates = no_updates
                            \<lparr>set_title := up_title payload,
                             set_amount := up_amount payload,
                             set_description := up_description payload\<rparr>
                      in if updates = no_updates then (Inr (serialize (Some doc)), dbo)
                         else
                           let db' = update_one_set db k (updates\<lparr>set_updated_at := Some now\<rparr>)
                           in (Inr (serialize (find_one db' k)), Some db'))))"

text \<open>
  \<open>submit_for_review\<close>: \<open>now_upd\<close> is the clock read for \<open>updated_at\<close>, \<open>now_at\<close> the
  one read by the \<open>Comment\<close> constructor, when a comment is built.
\<close>

definition submit_for_review ::
  "Store option \<Rightarrow> string \<Rightarrow> RolePayload \<Rightarrow> datetime \<Rightarrow> datetime \<Rightarrow> result \<times> Store option" where
  "submit_for_review dbo entry_id payload now_upd now_at =
     (case dbo of
        None \<Rightarrow> (Inl TypeError, dbo)
      | Some db \<Rightarrow>
          (case obj_id entry_id of
             Inl e \<Rightarrow> (Inl e, dbo)
           | Inr k \<Rightarrow>
               (case find_one db k of
                  None \<Rightarrow> (Inl (HTTPException 404 ''Entry not found''), dbo)
                | Some doc \<Rightarrow>
                    if frozen (snd doc) then
                      (Inl (HTTPException 400 ''Entry is frozen''), dbo)
                    else if rp_role payload \<notin> set [creator, blackadam] then
                      (Inl (HTTPException 403 ''Only creator can submit for review''), dbo)
                    else if status (snd doc) \<notin> set [draft, reentry_requested] then
                      (Inl (HTTPException 400
                         ''Only draft or reentry_requested entries can be submitted''), dbo)
                    else
                      let updates = no_updates
                            \<lparr>set_status := Some submitted_for_review,
                             set_updated_at := Some now_upd\<rparr>;
                          db1 = (if truthy (rp_comment payload) then
                                   update_one_push db k
                                     \<lparr>role = c_creator, message = the (rp_comment payload),
                                      at_time = now_at\<rparr>
                                 else db);
                          db2 = update_one_set db1 k updates
                      in (Inr (serialize (find_one db2 k)), Some db2))))"

definition reviewer_action ::
  "Store option \<Rightarrow> string \<Rightarrow> ReviewerActionPayload \<Rightarrow> datetime \<Rightarrow> datetime
     \<Rightarrow> result \<times> Store option" where
  "reviewer_action dbo entry_id payload now_upd now_at =
     (case dbo of
        None \<Rightarrow> (Inl TypeError, dbo)
      | Some db \<Rightarrow>
          (case obj_id entry_id of
             Inl e \<Rightarrow> (Inl e, dbo)
           | Inr k \<Rightarrow>
               (case find_one db k of
                  None \<Rightarrow> (Inl (HTTPException 404 ''Entry not found''), dbo)
                | Some doc \<Rightarrow>
                    if frozen (snd doc) then
                      (Inl (HTTPException 400 ''Entry is frozen''), dbo)
                    else if status (snd doc) \<notin> set [submitted_for_review, recheck_requested] then
                      (Inl (HTTPException 400 ''Entry is not ready for reviewer action''), dbo)
                    else
                      let (updates0, comment_role, default_msg) =
                            (if rv_action payload = mark_reviewed then
                               (no_updates\<lparr>set_status := Some reviewed\<rparr>,
                                c_reviewer, ''Marked as reviewed'')
                             else
                               (no_updates\<lparr>set_status := Some reentry_requested\<rparr>,
                                c_reviewer, ''Re-entry requested''));
                          updates = updates0\<lparr>set_updated_at := Some now_upd\<rparr>;
                          db1 = (if truthy (rv_comment payload) \<or> default_msg \<noteq> [] then
                                   update_one_push db k
                                     \<lparr>role = comment_role,
                                      message = or_default (rv_comment payload) default_msg,
                                      at_time = now_at\<rparr>
                                 else db);
                          db2 = update_one_set db1 k updates
                      in (Inr (serialize (find_one db2 k)), Some db2))))"

definition approver_action ::
  "Store option \<Rightarrow> string \<Rightarrow> ApproverActionPayload \<Rightarrow> datetime \<Rightarrow> datetime
     \<Rightarrow> result \<times> Store option" where
  "approver_action dbo entry_id payload now_upd now_at =
     (case dbo of
        None \<Rightarrow> (Inl TypeError, dbo)
      | Some db \<Rightarrow>
          (case obj_id entry_id of
             Inl e \<Rightarrow> (Inl e, dbo)
           | Inr k \<Rightarrow>
               (case find_one db k of
                  None \<Rightarrow> (Inl (HTTPException 404 ''Entry not found''), dbo)
                | Some doc \<Rightarrow>
                    if frozen (snd doc) then
                      (Inl (HTTPException 400 ''Entry is frozen''), dbo)
                    else if status (snd doc) \<noteq> reviewed then
                      (Inl (HTTPException 400
                         ''Only reviewed entries can be approved or re-reviewed''), dbo)
                    else
                      let (updates0, default_msg) =
                            (if ap_action payload = approve then
                               (no_updates\<lparr>set_status := Some approved, set_frozen := Some True\<rparr>,
                                ''Approved'')
                             else
                               (no_updates\<lparr>set_status := Some recheck_requested\<rparr>,
                                ''Re-review requested''));
                          updates = updates0\<lparr>set_updated_at := Some now_upd\<rparr>;
                          db1 = update_one_push db k
                                  \<lparr>role = c_approver,
                                   message = or_default (ap_comment payload) default_msg,
                                   at_time = now_at\<rparr>;
                          db2 = update_one_set db1 k updates
                      in (Inr (serialize (find_one db2 k)), Some db2))))"

definition get_entry :: "Store option \<Rightarrow> string \<Rightarrow> result \<times> Store option" where
  "get_entry dbo entry_id =
     (case dbo of
        None \<Rightarrow> (Inl TypeError, dbo)
      | Some db \<Rightarrow>
          (case obj_id entry_id of
             Inl e \<Rightarrow> (Inl e, dbo)
           | Inr k \<Rightarrow>
               (case find_one db k of
                  None \<Rightarrow> (Inl (HTTPException 404 ''Entry not found''), dbo)
                | Some doc \<Rightarrow> (Inr (serialize (Some doc)), dbo))))"

subsection \<open>Sequences of operations\<close>

text \<open>
  The five operations on entries, each with the arguments of its endpoint, and the store
  handle after one of them and after a sequence of them.
\<close>

datatype operation =
    Create AccountingEntry ObjectId datetime datetime
  | Update string UpdateEntryPayload datetime
  | Submit string RolePayload datetime datetime
  | Review string ReviewerActionPayload datetime datetime
  | Approve string ApproverActionPayload datetime datetime

fun exec :: "Store option \<Rightarrow> operation \<Rightarrow> Store option" where
  "exec dbo (Create entry new_id now1 now2) = snd (create_entry dbo entry new_id now1 now2)"
| "exec dbo (Update entry_id payload now) = snd (update_entry dbo entry_id payload now)"
| "exec dbo (Submit entry_id payload now_upd now_at) =
     snd (submit_for_review dbo entry_id payload now_upd now_at)"
| "exec dbo (Review entry_id payload now_upd now_at) =
     snd (reviewer_action dbo entry_id payload now_upd now_at)"
| "exec dbo (Approve entry_id payload now_upd now_at) =
     snd (approver_action dbo entry_id payload now_upd now_at)"

fun run :: "Store option \<Rightarrow> operation list \<Rightarrow> Store option" where
  "run dbo [] = dbo"
| "run dbo (op # ops) = run (exec dbo op) ops"

text \<open>The document stored under an identifier, if the handle is a store that has one.\<close>

definition entry_of :: "Store option \<Rightarrow> ObjectId \<Rightarrow> document option" where
  "entry_of dbo k = (case dbo of None \<Rightarrow> None | Some db \<Rightarrow> db k)"

subsection \<open>Example data\<close>

definition example_id :: ObjectId where
  "example_id = ''0123456789abcdef01234567''"

definition example_doc :: "Status \<Rightarrow> bool \<Rightarrow> document" where
  "example_doc s f =
     \<lparr>title = ''Rent'', amount = 500, description = None, status = s, comments = [],
      frozen = f, created_at = 1, updated_at = 2\<rparr>"

text \<open>The scenario of a complete approval, and the document it ends in.\<close>

definition example_ops :: "operation list" where
  "example_ops =
     [Create (AccountingEntry_init ''Rent'' 500 None None None None) example_id 1 2,
      Submit example_id \<lparr>rp_role = creator, rp_comment = None\<rparr> 3 4,
      Review example_id
        \<lparr>rv_role = r_reviewer, rv_action = mark_reviewed, rv_comment = None\<rparr> 5 6,
      Approve example_id
        \<lparr>ap_role = a_approver, ap_action = approve, ap_comment = None\<rparr> 7 8]"

definition example_approved :: document where
  "example_approved =
     \<lparr>title = ''Rent'', amount = 500, description = None, status = approved,
      comments =
        [\<lparr>role = c_reviewer, message = ''Marked as reviewed'', at_time = 6\<rparr>,
         \<lparr>role = c_approver, message = ''Approved'', at_time = 8\<rparr>],
      frozen = True, created_at = 1, updated_at = 7\<rparr>"

text \<open>Attempts of every kind on the approved entry.\<close>

definition example_attempts :: "operation list" where
  "example_attempts =
     [Update example_id
        \<lparr>up_title = Some ''Lease'', up_amount = None, up_description = None,
         up_role = blackadam\<rparr> 9,
      Submit example_id \<lparr>rp_role = blackadam, rp_comment = Some ''again''\<rparr> 10 11,
      Review example_id
        \<lparr>rv_role = r_blackadam, rv_action = request_reentry, rv_comment = None\<rparr> 12 13,
      Approve example_id
        \<lparr>ap_role = a_blackadam, ap_action = request_rereview, ap_comment = None\<rparr> 14 15,
      Create (AccountingEntry_init ''Other'' 1 None None None None) example_id 16 17]"

section \<open>Properties\<close>

subsection \<open>Identifiers and unfolding\<close>

lemma lower_hex_lower: "c \<in> set lower_hexdigits \<Longrightarrow> lower_hex c = c"
  by (auto simp: lower_hexdigits_def lower_hex_def)

lemma lower_is_hex: "c \<in> set lower_hexdigits \<Longrightarrow> c \<in> set hexdigits"
  by (auto simp: lower_hexdigits_def hexdigits_def)

lemma ObjectId_new_canonical: "canonical k \<Longrightarrow> ObjectId_new (str_ObjectId k) = Inr k"
proof -
  assume c: "canonical k"
  then have v: "ObjectId_is_valid k"
    by (simp add: canonical_def ObjectId_is_valid_def list_all_iff lower_is_hex)
  from c have "map lower_hex k = k"
    by (intro map_idI) (simp add: canonical_def list_all_iff lower_hex_lower)
  with v show ?thesis by (simp add: ObjectId_new_def str_ObjectId_def)
qed

lemma obj_id_canonical: "canonical k \<Longrightarrow> obj_id (str_ObjectId k) = Inr k"
  using ObjectId_new_canonical [of k] by (simp add: obj_id_def)

lemma canonical_example_id: "canonical example_id"
  by (simp add: canonical_def example_id_def lower_hexdigits_def)

lemma obj_id_example_id: "obj_id example_id = Inr example_id"
  using obj_id_canonical [OF canonical_example_id] by (simp add: str_ObjectId_def)

lemma ObjectId_new_example_id: "ObjectId_new example_id = Inr example_id"
  using ObjectId_new_canonical [OF canonical_example_id] by (simp add: str_ObjectId_def)

lemmas endpoint_defs =
  create_entry_def update_entry_def submit_for_review_def reviewer_action_def
  approver_action_def get_entry_def

lemmas store_defs =
  find_one_def update_one_set_def update_one_push_def insert_one_def create_document_def
  apply_set_def no_updates_def serialize_def

lemmas example_simps =
  obj_id_example_id ObjectId_new_example_id endpoint_defs store_defs entry_of_def
  AccountingEntry_init_def str_ObjectId_def truthy_def or_default_def Let_def

subsection \<open>Creation\<close>

lemma create_entry_result:
  assumes "canonical new_id" and "db new_id = None"
    and "doc = \<lparr>title = title entry, amount = amount entry, description = description entry,
                 status = draft, comments = [], frozen = False,
                 created_at = now1, updated_at = now2\<rparr>"
  shows "create_entry (Some db) entry new_id now1 now2
           = (Inr (Some (str_ObjectId new_id, doc)), Some (db(new_id \<mapsto> doc)))"
  using assms ObjectId_new_canonical [OF assms(1)]
  by (simp add: create_entry_def store_defs)

text \<open>
  Claim C1. For every Create call on a configured store with a fresh identifier, the
  entry returned and the entry stored are the same document, with \<open>status = draft\<close>,
  \<open>comments = []\<close> and \<open>frozen = False\<close> whatever the request supplies for status,
  comments and frozen (\<open>s\<close>, \<open>cs\<close> and \<open>f\<close> are arbitrary, left out or supplied), and
  with the title, the amount and the optional description of the request.
\<close>

theorem create_entry_forces_defaults:
  assumes "canonical new_id" and "db new_id = None"
  shows "create_entry (Some db) (AccountingEntry_init t a d s cs f) new_id now1 now2
           = (Inr (Some (str_ObjectId new_id,
                 \<lparr>title = t, amount = a, description = d,
                  status = draft, comments = [], frozen = False,
                  created_at = now1, updated_at = now2\<rparr>)),
              Some (db(new_id \<mapsto>
                 \<lparr>title = t, amount = a, description = d,
                  status = draft, comments = [], frozen = False,
                  created_at = now1, updated_at = now2\<rparr>)))"
  using assms
  by (simp add: create_entry_result AccountingEntry_init_def)

theorem create_entry_forces_defaults_witness:
  "canonical example_id \<and> Map.empty example_id = None
   \<and> create_entry (Some Map.empty)
         (AccountingEntry_init ''Rent'' 500 None (Some approved)
            (Some [\<lparr>role = c_approver, message = ''Approved'', at_time = 0\<rparr>]) (Some True))
         example_id 1 2
       = (Inr (Some (example_id, example_doc draft False)),
          Some [example_id \<mapsto> example_doc draft False])"
  using create_entry_forces_defaults
    [of example_id Map.empty "''Rent''" 500 None "Some approved"
        "Some [\<lparr>role = c_approver, message = ''Approved'', at_time = 0\<rparr>]" "Some True" 1 2]
  by (simp add: canonical_example_id example_doc_def str_ObjectId_def)

subsection \<open>The frozen flag\<close>

lemma exec_Some: "\<exists>db'. exec (Some db) op = Some db'"
  by (cases op)
     (auto simp: endpoint_defs create_document_def Let_def
       split: option.splits sum.splits prod.splits)

lemma exec_frozen_unchanged:
  assumes "db k = Some d" and "frozen d"
  shows "entry_of (exec (Some db) op) k = Some d"
proof (cases op)
  case (Create e k' t1 t2)
  with assms show ?thesis
    by (auto simp: create_entry_def store_defs entry_of_def split: option.splits sum.splits)
next
  case (Update i p t)
  with assms show ?thesis
    by (auto simp: update_entry_def store_defs entry_of_def Let_def
        split: option.splits sum.splits)
next
  case (Submit i p t1 t2)
  with assms show ?thesis
    by (auto simp: submit_for_review_def store_defs entry_of_def Let_def
        split: option.splits sum.splits)
next
  case (Review i p t1 t2)
  with assms show ?thesis
    by (auto simp: reviewer_action_def store_defs entry_of_def Let_def
        split: option.splits sum.splits)
next
  case (Approve i p t1 t2)
  with assms show ?thesis
    by (auto simp: approver_action_def store_defs entry_of_def Let_def
        split: option.splits sum.splits)
qed

text \<open>
  After one operation a document is either the one that was there before, or one whose
  frozen flag agrees with its status: a creation stores a draft that is not frozen, every
  other write happens behind the frozen check and a status check, and only \<open>approve\<close>
  sets either of \<open>frozen\<close> and \<open>approved\<close>.
\<close>

lemma exec_consistent:
  assumes "entry_of (exec (Some db) op) k = Some d'"
  shows "(frozen d' \<longleftrightarrow> status d' = approved) \<or> db k = Some d'"
proof (cases op)
  case (Create e k' t1 t2)
  with assms show ?thesis
    by (auto simp: create_entry_def store_defs entry_of_def
        split: option.splits sum.splits if_splits)
next
  case (Update i p t)
  with assms show ?thesis
    by (auto simp: update_entry_def store_defs entry_of_def Let_def
        split: option.splits sum.splits if_splits)
next
  case (Submit i p t1 t2)
  with assms show ?thesis
    by (auto simp: submit_for_review_def store_defs entry_of_def Let_def
        split: option.splits sum.splits if_splits)
next
  case (Review i p t1 t2)
  with assms show ?thesis
    by (auto simp: reviewer_action_def store_defs entry_of_def Let_def
        split: option.splits sum.splits if_splits)
next
  case (Approve i p t1 t2)
  with assms show ?thesis
    by (auto simp: approver_action_def store_defs entry_of_def Let_def
        split: option.splits sum.splits if_splits)
qed

lemma run_frozen_unchanged:
  "db k = Some d \<Longrightarrow> frozen d \<Longrightarrow> entry_of (run (Some db) ops) k = Some d"
proof (induction ops arbitrary: db)
  case Nil
  then show ?case by (simp add: entry_of_def)
next
  case (Cons op ops)
  obtain db' where step: "exec (Some db) op = Some db'"
    using exec_Some by blast
  with Cons.prems exec_frozen_unchanged [of db k d op] have "db' k = Some d"
    by (simp add: entry_of_def)
  with Cons.IH [of db'] Cons.prems(2) step show ?case by simp
qed

lemma run_consistent:
  assumes "\<forall>k d. db k = Some d \<longrightarrow> (frozen d \<longleftrightarrow> status d = approved)"
    and "entry_of (run (Some db) ops) k = Some d"
  shows "frozen d \<longleftrightarrow> status d = approved"
  using assms
proof (induction ops arbitrary: db)
  case Nil
  then show ?case by (simp add: entry_of_def)
next
  case (Cons op ops)
  obtain db' where step: "exec (Some db) op = Some db'"
    using exec_Some by blast
  have inv': "\<forall>k d. db' k = Some d \<longrightarrow> (frozen d \<longleftrightarrow> status d = approved)"
  proof (intro allI impI)
    fix k' d'
    assume "db' k' = Some d'"
    with step have "entry_of (exec (Some db) op) k' = Some d'"
      by (simp add: entry_of_def)
    with exec_consistent [of db op k' d'] Cons.prems(1)
    show "frozen d' \<longleftrightarrow> status d' = approved" by auto
  qed
  with Cons.prems(2) step Cons.IH [of db'] show ?case by simp
qed

lemma run_example_ops:
  "run (Some Map.empty) example_ops = Some [example_id \<mapsto> example_approved]"
  by (simp add: example_ops_def example_approved_def example_simps)

text \<open>
  Claim C2. For every entry reachable from the empty store by any sequence of the five
  operations, with arbitrary arguments, \<open>frozen\<close> holds if and only if the status is
  \<open>approved\<close>. And in any store whatever, once an entry is frozen no sequence of
  operations changes any of its fields: the document under its identifier stays the same
  document, timestamps included.
\<close>

theorem frozen_iff_approved_and_immutable:
  "(entry_of (run (Some Map.empty) ops) k = Some d \<longrightarrow> (frozen d \<longleftrightarrow> status d = approved))
   \<and> (entry_of dbo k' = Some d' \<longrightarrow> frozen d' \<longrightarrow> entry_of (run dbo ops') k' = Some d')"
proof (intro conjI impI)
  assume "entry_of (run (Some Map.empty) ops) k = Some d"
  then show "frozen d \<longleftrightarrow> status d = approved"
    using run_consistent [of Map.empty ops k d] by simp
next
  assume e: "entry_of dbo k' = Some d'" and f: "frozen d'"
  then obtain db where "dbo = Some db" and "db k' = Some d'"
    by (cases dbo) (simp_all add: entry_of_def)
  with f show "entry_of (run dbo ops') k' = Some d'"
    by (simp add: run_frozen_unchanged)
qed

theorem frozen_iff_approved_and_immutable_witness:
  "entry_of (run (Some Map.empty) example_ops) example_id = Some example_approved
   \<and> (frozen example_approved \<longleftrightarrow> status example_approved = approved)
   \<and> entry_of (Some [example_id \<mapsto> example_approved]) example_id = Some example_approved
   \<and> frozen example_approved
   \<and> entry_of (run (Some [example_id \<mapsto> example_approved]) example_attempts) example_id
       = Some example_approved"
  using frozen_iff_approved_and_immutable
    [of example_ops example_id example_approved "Some [example_id \<mapsto> example_approved]"
        example_id example_approved example_attempts]
  by (simp add: run_example_ops entry_of_def) (simp add: example_approved_def)

text \<open>
  Claim C3. On an entry with \<open>frozen = True\<close>, each of the four mutating operations
  fails with the frozen error (status 400, detail "Entry is frozen", for the field update
  "Entry is frozen and cannot be updated") whatever the payload: the declared role, the
  requested action and the comment are arbitrary. The result is never the 403 of the role
  check nor the 400 of a state check, and the store is returned as it was.
\<close>

theorem frozen_takes_precedence:
  assumes "obj_id entry_id = Inr k" and "db k = Some d" and "frozen d"
  shows "update_entry (Some db) entry_id up now
           = (Inl (HTTPException 400 ''Entry is frozen and cannot be updated''), Some db)
       \<and> submit_for_review (Some db) entry_id sp now_upd now_at
           = (Inl (HTTPException 400 ''Entry is frozen''), Some db)
       \<and> reviewer_action (Some db) entry_id rp now_upd now_at
           = (Inl (HTTPException 400 ''Entry is frozen''), Some db)
       \<and> approver_action (Some db) entry_id ap now_upd now_at
           = (Inl (HTTPException 400 ''Entry is frozen''), Some db)"
  using assms
  by (simp add: update_entry_def submit_for_review_def reviewer_action_def
      approver_action_def find_one_def)

theorem frozen_takes_precedence_witness:
  "obj_id example_id = Inr example_id
   \<and> [example_id \<mapsto> example_doc draft True] example_id = Some (example_doc draft True)
   \<and> frozen (example_doc draft True)
   \<and> update_entry (Some [example_id \<mapsto> example_doc draft True]) example_id
         \<lparr>up_title = Some ''Lease'', up_amount = None, up_description = None,
          up_role = creator\<rparr> 9
       = (Inl (HTTPException 400 ''Entry is frozen and cannot be updated''),
          Some [example_id \<mapsto> example_doc draft True])
   \<and> submit_for_review (Some [example_id \<mapsto> example_doc draft True]) example_id
         \<lparr>rp_role = reviewer, rp_comment = None\<rparr> 9 10
       = (Inl (HTTPException 400 ''Entry is frozen''),
          Some [example_id \<mapsto> example_doc draft True])
   \<and> reviewer_action (Some [example_id \<mapsto> example_doc draft True]) example_id
         \<lparr>rv_role = r_reviewer, rv_action = mark_reviewed, rv_comment = None\<rparr> 9 10
       = (Inl (HTTPException 400 ''Entry is frozen''),
          Some [example_id \<mapsto> example_doc draft True])
   \<and> approver_action (Some [example_id \<mapsto> example_doc draft True]) example_id
         \<lparr>ap_role = a_approver, ap_action = approve, ap_comment = None\<rparr> 9 10
       = (Inl (HTTPException 400 ''Entry is frozen''),
          Some [example_id \<mapsto> example_doc draft True])"
  using frozen_takes_precedence
    [of example_id example_id "[example_id \<mapsto> example_doc draft True]"
        "example_doc draft True"
        "\<lparr>up_title = Some ''Lease'', up_amount = None, up_description = None,
          up_role = creator\<rparr>" 9
        "\<lparr>rp_role = reviewer, rp_comment = None\<rparr>" 9 10
        "\<lparr>rv_role = r_reviewer, rv_action = mark_reviewed, rv_comment = None\<rparr>"
        "\<lparr>ap_role = a_approver, ap_action = approve, ap_comment = None\<rparr>"]
  by (simp add: obj_id_example_id example_doc_def)

subsection \<open>The approval scenario\<close>

text \<open>
  Claim C4. Create \<open>{title: "Rent", amount: 500}\<close> on a store where the new identifier
  is free, submit for review as creator without a comment, mark reviewed as reviewer,
  approve as approver, each under the identifier the creation returned: fetching the entry
  then yields status \<open>approved\<close>, \<open>frozen = True\<close> and exactly two comments, the
  reviewer's "Marked as reviewed" followed by the approver's "Approved".
\<close>

theorem approval_scenario:
  assumes "canonical new_id" and "db new_id = None"
  shows "let db1 = snd (create_entry (Some db)
                     (AccountingEntry_init ''Rent'' 500 None None None None) new_id t0 t1);
             db2 = snd (submit_for_review db1 (str_ObjectId new_id)
                     \<lparr>rp_role = creator, rp_comment = None\<rparr> t2 t3);
             db3 = snd (reviewer_action db2 (str_ObjectId new_id)
                     \<lparr>rv_role = r_reviewer, rv_action = mark_reviewed, rv_comment = None\<rparr>
                     t4 t5);
             db4 = snd (approver_action db3 (str_ObjectId new_id)
                     \<lparr>ap_role = a_approver, ap_action = approve, ap_comment = None\<rparr> t6 t7)
         in fst (get_entry db4 (str_ObjectId new_id))
              = Inr (Some (str_ObjectId new_id,
                  \<lparr>title = ''Rent'', amount = 500, description = None, status = approved,
                   comments =
                     [\<lparr>role = c_reviewer, message = ''Marked as reviewed'', at_time = t5\<rparr>,
                      \<lparr>role = c_approver, message = ''Approved'', at_time = t7\<rparr>],
                   frozen = True, created_at = t0, updated_at = t6\<rparr>))"
  using assms obj_id_canonical [OF assms(1)]
  by (simp add: create_entry_result [of new_id db, OF assms refl] AccountingEntry_init_def Let_def
      submit_for_review_def reviewer_action_def approver_action_def get_entry_def store_defs
      truthy_def or_default_def)

theorem approval_scenario_witness:
  "canonical example_id \<and> Map.empty example_id = None
   \<and> fst (get_entry
        (snd (approver_action
          (snd (reviewer_action
            (snd (submit_for_review
              (snd (create_entry (Some Map.empty)
                      (AccountingEntry_init ''Rent'' 500 None None None None) example_id 1 2))
              example_id \<lparr>rp_role = creator, rp_comment = None\<rparr> 3 4))
            example_id
            \<lparr>rv_role = r_reviewer, rv_action = mark_reviewed, rv_comment = None\<rparr> 5 6))
          example_id \<lparr>ap_role = a_approver, ap_action = approve, ap_comment = None\<rparr> 7 8))
        example_id)
      = Inr (Some (example_id, example_approved))"
  using approval_scenario [of example_id Map.empty 1 2 3 4 5 6 7 8]
  by (simp add: canonical_example_id Let_def str_ObjectId_def example_approved_def)

subsection \<open>Comments\<close>

text \<open>
  Claim C5. Whenever a transition succeeds and appends a comment, the role of the
  appended comment is the workflow role of the operation: \<open>creator\<close> for
  \<open>submit_for_review\<close> (which appends one exactly when a non-empty comment is supplied),
  \<open>reviewer\<close> for a reviewer action, \<open>approver\<close> for an approver action. The declared role
  of the payload is arbitrary here, \<open>blackadam\<close> included; the type of a comment's role has
  no fourth value.
\<close>

theorem comment_role_is_workflow_role:
  assumes "obj_id entry_id = Inr k" and "db k = Some d"
  shows "(submit_for_review (Some db) entry_id sp now_upd now_at = (Inr r1, db1) \<longrightarrow>
            truthy (rp_comment sp) \<longrightarrow>
            (\<exists>d'. r1 = Some (str_ObjectId k, d') \<and> entry_of db1 k = Some d' \<and>
                  comments d' = comments d @
                    [\<lparr>role = c_creator, message = the (rp_comment sp), at_time = now_at\<rparr>]))
       \<and> (reviewer_action (Some db) entry_id rp now_upd now_at = (Inr r2, db2) \<longrightarrow>
            (\<exists>d'. r2 = Some (str_ObjectId k, d') \<and> entry_of db2 k = Some d' \<and>
                  comments d' = comments d @
                    [\<lparr>role = c_reviewer,
                      message = or_default (rv_comment rp)
                        (if rv_action rp = mark_reviewed then ''Marked as reviewed''
                         else ''Re-entry requested''),
                      at_time = now_at\<rparr>]))
       \<and> (approver_action (Some db) entry_id ap now_upd now_at = (Inr r3, db3) \<longrightarrow>
            (\<exists>d'. r3 = Some (str_ObjectId k, d') \<and> entry_of db3 k = Some d' \<and>
                  comments d' = comments d @
                    [\<lparr>role = c_approver,
                      message = or_default (ap_comment ap)
                        (if ap_action ap = approve then ''Approved''
                         else ''Re-review requested''),
                      at_time = now_at\<rparr>]))"
  using assms
  by (auto simp: submit_for_review_def reviewer_action_def approver_action_def store_defs
      entry_of_def Let_def split: if_splits)

theorem comment_role_is_workflow_role_witness:
  "obj_id example_id = Inr example_id
   \<and> submit_for_review (Some [example_id \<mapsto> example_doc draft False]) example_id
         \<lparr>rp_role = blackadam, rp_comment = Some ''ready''\<rparr> 3 4
       = (Inr (Some (example_id,
             (example_doc draft False)
               \<lparr>comments := [\<lparr>role = c_creator, message = ''ready'', at_time = 4\<rparr>],
                status := submitted_for_review, updated_at := 3\<rparr>)),
          Some [example_id \<mapsto>
             (example_doc draft False)
               \<lparr>comments := [\<lparr>role = c_creator, message = ''ready'', at_time = 4\<rparr>],
                status := submitted_for_review, updated_at := 3\<rparr>])
   \<and> reviewer_action (Some [example_id \<mapsto> example_doc submitted_for_review False]) example_id
         \<lparr>rv_role = r_blackadam, rv_action = request_reentry, rv_comment = None\<rparr> 3 4
       = (Inr (Some (example_id,
             (example_doc submitted_for_review False)
               \<lparr>comments :=
                  [\<lparr>role = c_reviewer, message = ''Re-entry requested'', at_time = 4\<rparr>],
                status := reentry_requested, updated_at := 3\<rparr>)),
          Some [example_id \<mapsto>
             (example_doc submitted_for_review False)
               \<lparr>comments :=
                  [\<lparr>role = c_reviewer, message = ''Re-entry requested'', at_time = 4\<rparr>],
                status := reentry_requested, updated_at := 3\<rparr>])
   \<and> approver_action (Some [example_id \<mapsto> example_doc reviewed False]) example_id
         \<lparr>ap_role = a_blackadam, ap_action = approve, ap_comment = Some ''fine''\<rparr> 3 4
       = (Inr (Some (example_id,
             (example_doc reviewed False)
               \<lparr>comments := [\<lparr>role = c_approver, message = ''fine'', at_time = 4\<rparr>],
                status := approved, frozen := True, updated_at := 3\<rparr>)),
          Some [example_id \<mapsto>
             (example_doc reviewed False)
               \<lparr>comments := [\<lparr>role = c_approver, message = ''fine'', at_time = 4\<rparr>],
                status := approved, frozen := True, updated_at := 3\<rparr>])"
  using comment_role_is_workflow_role
    [of example_id example_id "[example_id \<mapsto> example_doc draft False]"
        "example_doc draft False"
        "\<lparr>rp_role = blackadam, rp_comment = Some ''ready''\<rparr>" 3 4]
    comment_role_is_workflow_role
    [of example_id example_id "[example_id \<mapsto> example_doc submitted_for_review False]"
        "example_doc submitted_for_review False" _ 3 4 _ _
        "\<lparr>rv_role = r_blackadam, rv_action = request_reentry, rv_comment = None\<rparr>"]
    comment_role_is_workflow_role
    [of example_id example_id "[example_id \<mapsto> example_doc reviewed False]"
        "example_doc reviewed False" _ 3 4 _ _ _ _ _
        "\<lparr>ap_role = a_blackadam, ap_action = approve, ap_comment = Some ''fine''\<rparr>"]
  by (simp add: example_doc_def example_simps)

text \<open>
  Claim C10. An empty comment is an absent comment. For \<open>submit_for_review\<close> the call
  with the empty string and the call with no comment have the same outcome, and after
  either the stored entry has the comments it had: nothing is appended. For a reviewer or
  approver action the two calls have the same outcome as well, and when the action goes
  through one comment is appended whose message is the default of the transition, not the
  empty string.
\<close>

theorem empty_comment_is_absent:
  assumes "obj_id entry_id = Inr k" and "db k = Some d"
  shows "submit_for_review dbo i \<lparr>rp_role = r, rp_comment = Some ''''\<rparr> now_upd now_at
           = submit_for_review dbo i \<lparr>rp_role = r, rp_comment = None\<rparr> now_upd now_at
       \<and> reviewer_action dbo i \<lparr>rv_role = rr, rv_action = ra, rv_comment = Some ''''\<rparr>
             now_upd now_at
           = reviewer_action dbo i \<lparr>rv_role = rr, rv_action = ra, rv_comment = None\<rparr>
               now_upd now_at
       \<and> approver_action dbo i \<lparr>ap_role = ar, ap_action = aa, ap_comment = Some ''''\<rparr>
             now_upd now_at
           = approver_action dbo i \<lparr>ap_role = ar, ap_action = aa, ap_comment = None\<rparr>
               now_upd now_at
       \<and> (\<exists>d'. entry_of (snd (submit_for_review (Some db) entry_id
                     \<lparr>rp_role = r, rp_comment = Some ''''\<rparr> now_upd now_at)) k = Some d'
                \<and> comments d' = comments d)
       \<and> (reviewer_action (Some db) entry_id
             \<lparr>rv_role = rr, rv_action = ra, rv_comment = Some ''''\<rparr> now_upd now_at
            = (Inr r2, db2) \<longrightarrow>
            (\<exists>d'. r2 = Some (str_ObjectId k, d') \<and> entry_of db2 k = Some d' \<and>
                  comments d' = comments d @
                    [\<lparr>role = c_reviewer,
                      message = (if ra = mark_reviewed then ''Marked as reviewed''
                                 else ''Re-entry requested''),
                      at_time = now_at\<rparr>]))
       \<and> (approver_action (Some db) entry_id
             \<lparr>ap_role = ar, ap_action = aa, ap_comment = Some ''''\<rparr> now_upd now_at
            = (Inr r3, db3) \<longrightarrow>
            (\<exists>d'. r3 = Some (str_ObjectId k, d') \<and> entry_of db3 k = Some d' \<and>
                  comments d' = comments d @
                    [\<lparr>role = c_approver,
                      message = (if aa = approve then ''Approved'' else ''Re-review requested''),
                      at_time = now_at\<rparr>]))"
proof (intro conjI)
  show "submit_for_review dbo i \<lparr>rp_role = r, rp_comment = Some ''''\<rparr> now_upd now_at
          = submit_for_review dbo i \<lparr>rp_role = r, rp_comment = None\<rparr> now_upd now_at"
    by (simp add: submit_for_review_def truthy_def Let_def split: option.splits sum.splits)
  show "reviewer_action dbo i \<lparr>rv_role = rr, rv_action = ra, rv_comment = Some ''''\<rparr>
            now_upd now_at
          = reviewer_action dbo i \<lparr>rv_role = rr, rv_action = ra, rv_comment = None\<rparr>
              now_upd now_at"
    by (simp add: reviewer_action_def truthy_def or_default_def Let_def
        split: option.splits sum.splits)
  show "approver_action dbo i \<lparr>ap_role = ar, ap_action = aa, ap_comment = Some ''''\<rparr>
            now_upd now_at
          = approver_action dbo i \<lparr>ap_role = ar, ap_action = aa, ap_comment = None\<rparr>
              now_upd now_at"
    by (simp add: approver_action_def or_default_def Let_def split: option.splits sum.splits)
  show "\<exists>d'. entry_of (snd (submit_for_review (Some db) entry_id
                  \<lparr>rp_role = r, rp_comment = Some ''''\<rparr> now_upd now_at)) k = Some d'
             \<and> comments d' = comments d"
    using assms
    by (simp add: submit_for_review_def store_defs entry_of_def Let_def truthy_def)
  show "reviewer_action (Some db) entry_id
          \<lparr>rv_role = rr, rv_action = ra, rv_comment = Some ''''\<rparr> now_upd now_at
         = (Inr r2, db2) \<longrightarrow>
         (\<exists>d'. r2 = Some (str_ObjectId k, d') \<and> entry_of db2 k = Some d' \<and>
               comments d' = comments d @
                 [\<lparr>role = c_reviewer,
                   message = (if ra = mark_reviewed then ''Marked as reviewed''
                              else ''Re-entry requested''),
                   at_time = now_at\<rparr>])"
    using assms
    by (auto simp: reviewer_action_def store_defs entry_of_def Let_def truthy_def
        or_default_def split: if_splits)
  show "approver_action (Some db) entry_id
          \<lparr>ap_role = ar, ap_action = aa, ap_comment = Some ''''\<rparr> now_upd now_at
         = (Inr r3, db3) \<longrightarrow>
         (\<exists>d'. r3 = Some (str_ObjectId k, d') \<and> entry_of db3 k = Some d' \<and>
               comments d' = comments d @
                 [\<lparr>role = c_approver,
                   message = (if aa = approve then ''Approved'' else ''Re-review requested''),
                   at_time = now_at\<rparr>])"
    using assms
    by (auto simp: approver_action_def store_defs entry_of_def Let_def or_default_def
        split: if_splits)
qed

theorem empty_comment_is_absent_witness:
  "obj_id example_id = Inr example_id
   \<and> submit_for_review (Some [example_id \<mapsto> example_doc draft False]) example_id
         \<lparr>rp_role = creator, rp_comment = Some ''''\<rparr> 3 4
       = (Inr (Some (example_id,
             (example_doc draft False)\<lparr>status := submitted_for_review, updated_at := 3\<rparr>)),
          Some [example_id \<mapsto>
             (example_doc draft False)\<lparr>status := submitted_for_review, updated_at := 3\<rparr>])
   \<and> reviewer_action (Some [example_id \<mapsto> example_doc submitted_for_review False]) example_id
         \<lparr>rv_role = r_reviewer, rv_action = mark_reviewed, rv_comment = Some ''''\<rparr> 3 4
       = (Inr (Some (example_id,
             (example_doc submitted_for_review False)
               \<lparr>comments :=
                  [\<lparr>role = c_reviewer, message = ''Marked as reviewed'', at_time = 4\<rparr>],
                status := reviewed, updated_at := 3\<rparr>)),
          Some [example_id \<mapsto>
             (example_doc submitted_for_review False)
               \<lparr>comments :=
                  [\<lparr>role = c_reviewer, message = ''Marked as reviewed'', at_time = 4\<rparr>],
                status := reviewed, updated_at := 3\<rparr>])
   \<and> approver_action (Some [example_id \<mapsto> example_doc reviewed False]) example_id
         \<lparr>ap_role = a_approver, ap_action = request_rereview, ap_comment = Some ''''\<rparr> 3 4
       = (Inr (Some (example_id,
             (example_doc reviewed False)
               \<lparr>comments :=
                  [\<lparr>role = c_approver, message = ''Re-review requested'', at_time = 4\<rparr>],
                status := recheck_requested, updated_at := 3\<rparr>)),
          Some [example_id \<mapsto>
             (example_doc reviewed False)
               \<lparr>comments :=
                  [\<lparr>role = c_approver, message = ''Re-review requested'', at_time = 4\<rparr>],
                status := recheck_requested, updated_at := 3\<rparr>])"
  using empty_comment_is_absent
    [of example_id example_id "[example_id \<mapsto> example_doc draft False]"
        "example_doc draft False" _ _ creator 3 4]
    empty_comment_is_absent
    [of example_id example_id "[example_id \<mapsto> example_doc submitted_for_review False]"
        "example_doc submitted_for_review False" _ _ _ 3 4 r_reviewer mark_reviewed]
    empty_comment_is_absent
    [of example_id example_id "[example_id \<mapsto> example_doc reviewed False]"
        "example_doc reviewed False" _ _ _ 3 4 _ _ a_approver request_rereview]
  by (simp add: example_doc_def example_simps)

subsection \<open>Field updates\<close>

text \<open>
  Claim C6. Two \<open>update_fields\<close> calls on the same store handle, for the same
  identifier, at the same clock reading, whose payloads agree on title, amount and
  description and differ in the declared role, have the same outcome: the same result
  (the same entry or the same error) and the same store afterwards.
\<close>

theorem update_entry_ignores_role:
  "update_entry dbo entry_id (payload\<lparr>up_role := r1\<rparr>) now
     = update_entry dbo entry_id (payload\<lparr>up_role := r2\<rparr>) now"
  by (simp add: update_entry_def split: option.splits sum.splits)

text \<open>
  Claim C9. An \<open>update_fields\<close> call on an entry that is not frozen and is in status
  \<open>draft\<close> or \<open>reentry_requested\<close>, with none of title, amount and description
  supplied, succeeds; it returns the stored entry as it is, \<open>updated_at\<close> included, and
  returns the store as it was.
\<close>

theorem update_entry_no_fields:
  assumes "obj_id entry_id = Inr k" and "db k = Some d" and "\<not> frozen d"
    and "status d = draft \<or> status d = reentry_requested"
    and "up_title payload = None" and "up_amount payload = None"
    and "up_description payload = None"
  shows "update_entry (Some db) entry_id payload now = (Inr (Some (str_ObjectId k, d)), Some db)"
  using assms
  by (auto simp: update_entry_def find_one_def serialize_def no_updates_def)

theorem update_entry_no_fields_witness:
  "obj_id example_id = Inr example_id
   \<and> [example_id \<mapsto> example_doc reentry_requested False] example_id
       = Some (example_doc reentry_requested False)
   \<and> \<not> frozen (example_doc reentry_requested False)
   \<and> status (example_doc reentry_requested False) = reentry_requested
   \<and> update_entry (Some [example_id \<mapsto> example_doc reentry_requested False]) example_id
         \<lparr>up_title = None, up_amount = None, up_description = None, up_role = approver\<rparr> 9
       = (Inr (Some (example_id, example_doc reentry_requested False)),
          Some [example_id \<mapsto> example_doc reentry_requested False])"
  using update_entry_no_fields
    [of example_id example_id "[example_id \<mapsto> example_doc reentry_requested False]"
        "example_doc reentry_requested False"
        "\<lparr>up_title = None, up_amount = None, up_description = None, up_role = approver\<rparr>" 9]
  by (simp add: obj_id_example_id example_doc_def str_ObjectId_def)

subsection \<open>Re-review and the role check of submission\<close>



text \<open>
  Claim C8. A \<open>submit_for_review\<close> call with declared role \<open>reviewer\<close> or \<open>approver\<close>
  on an entry in status \<open>draft\<close> fails with status 403, "Only creator can submit for
  review", and returns the store as it was; with declared role \<open>creator\<close> or
  \<open>blackadam\<close> the call succeeds. An entry in status \<open>draft\<close> is one that is not
  frozen: frozen entries are the approved ones.
\<close>

theorem submit_forbidden_role:
  assumes "obj_id entry_id = Inr k" and "db k = Some d" and "\<not> frozen d"
    and "status d = draft"
  shows "(rp_role payload = reviewer \<or> rp_role payload = approver \<longrightarrow>
            submit_for_review (Some db) entry_id payload now_upd now_at
              = (Inl (HTTPException 403 ''Only creator can submit for review''), Some db))
       \<and> (rp_role payload = creator \<or> rp_role payload = blackadam \<longrightarrow>
            (\<exists>r. fst (submit_for_review (Some db) entry_id payload now_upd now_at) = Inr r))"
  using assms
  by (auto simp: submit_for_review_def find_one_def Let_def)

theorem submit_forbidden_role_witness:
  "obj_id example_id = Inr example_id
   \<and> [example_id \<mapsto> example_doc draft False] example_id = Some (example_doc draft False)
   \<and> \<not> frozen (example_doc draft False)
   \<and> status (example_doc draft False) = draft
   \<and> submit_for_review (Some [example_id \<mapsto> example_doc draft False]) example_id
         \<lparr>rp_role = reviewer, rp_comment = None\<rparr> 3 4
       = (Inl (HTTPException 403 ''Only creator can submit for review''),
          Some [example_id \<mapsto> example_doc draft False])
   \<and> (\<exists>r. fst (submit_for_review (Some [example_id \<mapsto> example_doc draft False]) example_id
                  \<lparr>rp_role = blackadam, rp_comment = None\<rparr> 3 4) = Inr r)"
  using submit_forbidden_role
    [of example_id example_id "[example_id \<mapsto> example_doc draft False]"
        "example_doc draft False" "\<lparr>rp_role = reviewer, rp_comment = None\<rparr>" 3 4]
    submit_forbidden_role
    [of example_id example_id "[example_id \<mapsto> example_doc draft False]"
        "example_doc draft False" "\<lparr>rp_role = blackadam, rp_comment = None\<rparr>" 3 4]
  by (simp add: obj_id_example_id example_doc_def)

end
